theory Spec2Isabelle
  imports Complex_Main
begin

section \<open>Satellite visibility: the coordinate pipeline of \<^verbatim>\<open>sat_math.py\<close>\<close>

text \<open>
  The source computes with Python floats and numpy arrays of floats. The embedding reads
  every float as a \<^typ>\<open>real\<close> and every arithmetic operation as the exact operation
  on reals: it describes the formulas the program evaluates, not the rounding of IEEE-754
  doubles. A 3-vector is a triple and a 3x3 matrix a triple of rows, as the nested lists
  handed to \<^verbatim>\<open>np.array\<close> are written.
\<close>

type_synonym vec3 = "real \<times> real \<times> real"
type_synonym mat3 = "vec3 \<times> vec3 \<times> vec3"

subsection \<open>Library operations the source calls\<close>

text \<open>\<^verbatim>\<open>math.radians\<close>, \<^verbatim>\<open>math.degrees\<close>, \<^verbatim>\<open>math.hypot\<close>.\<close>

definition radians :: "real \<Rightarrow> real" where
  "radians d = d * (pi / 180)"

definition degrees :: "real \<Rightarrow> real" where
  "degrees r = r * (180 / pi)"

definition hypot :: "real \<Rightarrow> real \<Rightarrow> real" where
  "hypot x y = sqrt (x * x + y * y)"

text \<open>
  \<^verbatim>\<open>math.atan2(y, x)\<close>: the angle of the point \<open>(x, y)\<close> in \<open>(-pi, pi]\<close>, and 0 at the
  origin (the C library convention Python follows; no error is raised there).
\<close>

definition atan2 :: "real \<Rightarrow> real \<Rightarrow> real" where
  "atan2 y x =
     (if 0 < x then arctan (y / x)
      else if x < 0 then (if 0 \<le> y then arctan (y / x) + pi else arctan (y / x) - pi)
      else if 0 < y then pi / 2
      else if y < 0 then - (pi / 2)
      else 0)"

text \<open>
  Python's float \<^verbatim>\<open>%\<close>: the result has the sign of the divisor (floored modulo). The source
  only uses it with the literal divisor \<^verbatim>\<open>1.0\<close>, so the \<^verbatim>\<open>ZeroDivisionError\<close> of a
  zero divisor cannot occur.
\<close>

definition py_fmod :: "real \<Rightarrow> real \<Rightarrow> real" where
  "py_fmod a b = a - b * of_int \<lfloor>a / b\<rfloor>"

text \<open>numpy's \<^verbatim>\<open>@\<close> on two 3x3 arrays, on a 3x3 array and a 3-vector, and \<^verbatim>\<open>-\<close> on 3-vectors.\<close>

fun dot :: "vec3 \<Rightarrow> vec3 \<Rightarrow> real" where
  "dot (a1, a2, a3) (b1, b2, b3) = a1 * b1 + a2 * b2 + a3 * b3"

fun matvec :: "mat3 \<Rightarrow> vec3 \<Rightarrow> vec3" where
  "matvec (r1, r2, r3) v = (dot r1 v, dot r2 v, dot r3 v)"

fun transpose3 :: "mat3 \<Rightarrow> mat3" where
  "transpose3 ((a11, a12, a13), (a21, a22, a23), (a31, a32, a33)) =
     ((a11, a21, a31), (a12, a22, a32), (a13, a23, a33))"

fun matmul :: "mat3 \<Rightarrow> mat3 \<Rightarrow> mat3" where
  "matmul (r1, r2, r3) B =
     (case transpose3 B of (c1, c2, c3) \<Rightarrow>
        ((dot r1 c1, dot r1 c2, dot r1 c3),
         (dot r2 c1, dot r2 c2, dot r2 c3),
         (dot r3 c1, dot r3 c2, dot r3 c3)))"

fun vsub :: "vec3 \<Rightarrow> vec3 \<Rightarrow> vec3" where
  "vsub (a1, a2, a3) (b1, b2, b3) = (a1 - b1, a2 - b2, a3 - b3)"

text \<open>
  The \<^verbatim>\<open>erfa\<close> package is not part of the repository. What the source takes from it is a
  parameter of the model: the series \<^verbatim>\<open>xys00b\<close>, the matrix builder \<^verbatim>\<open>c2ixys\<close> and the
  constant \<^verbatim>\<open>DAS2R\<close> (arcseconds to radians).
\<close>

record erfa =
  xys00b :: "real \<Rightarrow> real \<Rightarrow> real \<times> real \<times> real"
  c2ixys :: "real \<Rightarrow> real \<Rightarrow> real \<Rightarrow> mat3"
  DAS2R :: real

subsection \<open>Constants (WGS-84)\<close>

definition F :: real where
  "F = 1 / 298.257223563"

definition A :: real where
  "A = 6378137"

definition E2 :: real where
  "E2 = F * (2 - F)"

definition day_sec :: real where
  "day_sec = 86400.0"

subsection \<open>Helper functions\<close>

definition jd_from_tt_offset :: "real \<Rightarrow> real" where
  "jd_from_tt_offset JDN_tt_from_J2000 = 2451545.0 + JDN_tt_from_J2000"

definition tt_utc_leap_seconds :: "int \<Rightarrow> real" where
  "tt_utc_leap_seconds leap_seconds = 32.184 + real_of_int leap_seconds"

definition era_from_ut1 :: "real \<Rightarrow> real" where
  "era_from_ut1 jd_ut1 =
     (let D_ut1 = jd_ut1 - 2451545.0;
          f = py_fmod (0.7790572732640 + 1.00273781191135448 * D_ut1) 1.0
      in 2 * pi * f)"

definition geodetic_to_ecef :: "real \<Rightarrow> real \<Rightarrow> real \<Rightarrow> vec3" where
  "geodetic_to_ecef lat_deg lon_deg h_m =
     (let lat = radians lat_deg;
          lon = radians lon_deg;
          N = A / sqrt (1.0 - E2 * (sin lat)\<^sup>2);
          X = (N + h_m) * cos lat * cos lon;
          Y = (N + h_m) * cos lat * sin lon;
          Z = (N * (1.0 - E2) + h_m) * sin lat
      in (X, Y, Z))"

definition enu_components :: "vec3 \<Rightarrow> real \<Rightarrow> real \<Rightarrow> vec3" where
  "enu_components dxyz lat_deg lon_deg =
     (let lat = radians lat_deg;
          lon = radians lon_deg;
          sinp = sin lat; cosp = cos lat;
          sinl = sin lon; cosl = cos lon
      in case dxyz of (dx, dy, dz) \<Rightarrow>
         (let E = - sinl * dx + cosl * dy;
              N = - sinp * cosl * dx - sinp * sinl * dy + cosp * dz;
              U = cosp * cosl * dx + cosp * sinl * dy + sinp * dz
          in (E, N, U)))"

definition elevation_from_enu :: "real \<Rightarrow> real \<Rightarrow> real \<Rightarrow> real" where
  "elevation_from_enu E N U = degrees (atan2 U (hypot E N))"

subsection \<open>Rotations\<close>

definition R1 :: "real \<Rightarrow> mat3" where
  "R1 x = (let cx = cos x; sx = sin x
           in ((1, 0, 0),
               (0, cx, - sx),
               (0, sx, cx)))"

definition R2 :: "real \<Rightarrow> mat3" where
  "R2 y = (let cy = cos y; sy = sin y
           in ((cy, 0, sy),
               (0, 1, 0),
               (- sy, 0, cy)))"

definition R3 :: "real \<Rightarrow> mat3" where
  "R3 z = (let cz = cos z; sz = sin z
           in ((cz, sz, 0),
               (- sz, cz, 0),
               (0, 0, 1)))"

definition W_polar :: "real \<Rightarrow> real \<Rightarrow> mat3" where
  "W_polar xp yp = matmul (R2 xp) (R1 yp)"

definition C_from_XYs :: "erfa \<Rightarrow> real \<Rightarrow> mat3" where
  "C_from_XYs lib jd_tt =
     (let jd1 = jd_tt; jd2 = 0.0 in
      case xys00b lib jd1 jd2 of (X, Y, s) \<Rightarrow> c2ixys lib X Y s)"

subsection \<open>Inertial to Earth-fixed\<close>

text \<open>
  The body of \<^verbatim>\<open>eci_to_ecef_gcrs\<close> in three named pieces: the UT1 Julian date (the
  first three assignments), the total matrix \<^verbatim>\<open>C2T\<close>, and the returned product.
\<close>

definition jd_ut1_of :: "real \<Rightarrow> int \<Rightarrow> real \<Rightarrow> real" where
  "jd_ut1_of jd_tt leap_seconds DUT1 =
     (let tt_minus_utc = tt_utc_leap_seconds leap_seconds / day_sec;
          jd_utc = jd_tt - tt_minus_utc;
          jd_ut1 = jd_utc + DUT1 / day_sec
      in jd_ut1)"

definition C2T_of :: "erfa \<Rightarrow> real \<Rightarrow> int \<Rightarrow> real \<Rightarrow> real \<Rightarrow> real \<Rightarrow> mat3" where
  "C2T_of lib jd_tt leap_seconds DUT1 xp_as yp_as =
     (let jd_ut1 = jd_ut1_of jd_tt leap_seconds DUT1;
          theta = era_from_ut1 jd_ut1;
          R = R3 theta;
          C = C_from_XYs lib jd_tt;
          xp = xp_as * DAS2R lib;
          yp = yp_as * DAS2R lib;
          W = W_polar xp yp;
          C2T = matmul (matmul W R) C
      in C2T)"

definition eci_to_ecef_gcrs :: "erfa \<Rightarrow> vec3 \<Rightarrow> real \<Rightarrow> int \<Rightarrow> real \<Rightarrow> real \<Rightarrow> real \<Rightarrow> vec3" where
  "eci_to_ecef_gcrs lib r_gcrs jd_tt leap_seconds DUT1 xp_as yp_as =
     matvec (C2T_of lib jd_tt leap_seconds DUT1 xp_as yp_as) r_gcrs"

subsection \<open>The two drivers\<close>

text \<open>
  \<^verbatim>\<open>compute\<close> of \<^verbatim>\<open>gui.py\<close> after its fields are parsed, returning what it displays: the
  Earth-fixed position, the elevation and the visibility flag.
\<close>

definition compute ::
  "erfa \<Rightarrow> vec3 \<Rightarrow> real \<Rightarrow> real \<Rightarrow> real \<Rightarrow> real \<Rightarrow> real \<Rightarrow> int \<Rightarrow> real \<Rightarrow> real \<Rightarrow> real
     \<Rightarrow> vec3 \<times> real \<times> bool" where
  "compute lib r_gcrs jdn_tt lat lon h min_elev leap_seconds dut1 xp_as yp_as =
     (let jd_tt = 2451545.0 + jdn_tt;
          r_itrs = eci_to_ecef_gcrs lib r_gcrs jd_tt leap_seconds dut1 xp_as yp_as;
          r_site = geodetic_to_ecef lat lon h;
          dxyz = vsub r_itrs r_site
      in case enu_components dxyz lat lon of (E, N, U) \<Rightarrow>
         (let elev = elevation_from_enu E N U;
              visible = (elev \<ge> min_elev)
          in (r_itrs, elev, visible)))"

text \<open>\<^verbatim>\<open>main\<close> of \<^verbatim>\<open>sat_math.py\<close>, returning the elevation and the flag it prints.\<close>

definition main :: "erfa \<Rightarrow> real \<times> bool" where
  "main lib =
     (let eci_gcrs = (4435144.0, -2137297.0, 4670064.0);
          min_elevation = 15;
          lat_deg = 45.920266;
          lon_deg = -63.342286;
          h = 0;
          JDN = 8084.185608609847;
          leap_seconds = 37;
          jd_tt = jd_from_tt_offset JDN;
          DUT1 = 0.0;
          xp_as = 0.0;
          yp_as = 0.0;
          r_ecef = eci_to_ecef_gcrs lib eci_gcrs jd_tt leap_seconds DUT1 xp_as yp_as;
          r_site = geodetic_to_ecef lat_deg lon_deg h;
          dxyz = vsub r_ecef r_site
      in case enu_components dxyz lat_deg lon_deg of (E, N, U) \<Rightarrow>
         (let elevation = elevation_from_enu E N U;
              visible = (min_elevation \<le> elevation)
          in (elevation, visible)))"

subsection \<open>Orthonormality, as the specification words it\<close>

definition ident3 :: mat3 where
  "ident3 = ((1, 0, 0), (0, 1, 0), (0, 0, 1))"

fun det3 :: "mat3 \<Rightarrow> real" where
  "det3 ((a11, a12, a13), (a21, a22, a23), (a31, a32, a33)) =
     a11 * (a22 * a33 - a23 * a32) - a12 * (a21 * a33 - a23 * a31)
       + a13 * (a21 * a32 - a22 * a31)"

text \<open>Three vectors of unit length that are mutually orthogonal.\<close>

definition unit_orthogonal :: "vec3 \<Rightarrow> vec3 \<Rightarrow> vec3 \<Rightarrow> bool" where
  "unit_orthogonal u v w \<longleftrightarrow>
     dot u u = 1 \<and> dot v v = 1 \<and> dot w w = 1 \<and> dot u v = 0 \<and> dot u w = 0 \<and> dot v w = 0"

text \<open>
  Specification, section 3: rows and columns are unit-length and mutually orthogonal, and
  the determinant is \<open>+1\<close>.
\<close>

definition orthonormal :: "mat3 \<Rightarrow> bool" where
  "orthonormal M \<longleftrightarrow>
     (case M of (r1, r2, r3) \<Rightarrow> unit_orthogonal r1 r2 r3) \<and>
     (case transpose3 M of (c1, c2, c3) \<Rightarrow> unit_orthogonal c1 c2 c3) \<and>
     det3 M = 1"

text \<open>
  A stand-in for the library at concrete inputs: a series that returns \<open>X = Y = s = 0\<close>,
  for which the celestial-to-intermediate matrix is the identity, and the value of
  \<^verbatim>\<open>DAS2R\<close>.
\<close>

definition erfa_stub :: erfa where
  "erfa_stub =
     \<lparr>xys00b = (\<lambda>jd1 jd2. (0, 0, 0)), c2ixys = (\<lambda>X Y s. ident3), DAS2R = pi / 648000\<rparr>"

section \<open>Matrix algebra on triples\<close>

lemma mat3_cases:
  obtains a11 a12 a13 a21 a22 a23 a31 a32 a33
  where "M = ((a11, a12, a13), (a21, a22, a23), (a31, a32, a33))"
  by (metis prod_cases3)

lemma matmul_assoc: "matmul (matmul X Y) Z = matmul X (matmul Y Z)"
  by (cases X rule: mat3_cases, cases Y rule: mat3_cases, cases Z rule: mat3_cases)
     (simp add: algebra_simps)

lemma matvec_matmul: "matvec (matmul X Y) v = matvec X (matvec Y v)"
  by (cases X rule: mat3_cases, cases Y rule: mat3_cases, cases v)
     (simp add: algebra_simps)

lemma transpose3_matmul: "transpose3 (matmul X Y) = matmul (transpose3 Y) (transpose3 X)"
  by (cases X rule: mat3_cases, cases Y rule: mat3_cases)
     (simp add: algebra_simps)

lemma transpose3_invol: "transpose3 (transpose3 X) = X"
  by (cases X rule: mat3_cases) simp

lemma matmul_ident3_left: "matmul ident3 X = X"
  by (cases X rule: mat3_cases) (simp add: ident3_def)

lemma matmul_ident3_right: "matmul X ident3 = X"
  by (cases X rule: mat3_cases) (simp add: ident3_def)

lemma matvec_ident3: "matvec ident3 v = v"
  by (cases v) (simp add: ident3_def)

lemma det3_matmul: "det3 (matmul X Y) = det3 X * det3 Y"
  by (cases X rule: mat3_cases, cases Y rule: mat3_cases)
     (simp add: algebra_simps)

lemma det3_transpose3: "det3 (transpose3 X) = det3 X"
  by (cases X rule: mat3_cases) (simp add: algebra_simps)

lemma orthonormal_iff:
  "orthonormal M \<longleftrightarrow>
     matmul M (transpose3 M) = ident3 \<and> matmul (transpose3 M) M = ident3 \<and> det3 M = 1"
  by (cases M rule: mat3_cases)
     (auto simp add: orthonormal_def unit_orthogonal_def ident3_def mult.commute)

lemma orthonormal_R1: "orthonormal (R1 x)"
  by (simp add: orthonormal_def unit_orthogonal_def R1_def Let_def algebra_simps)

lemma orthonormal_R2: "orthonormal (R2 x)"
  by (simp add: orthonormal_def unit_orthogonal_def R2_def Let_def algebra_simps)

lemma orthonormal_R3: "orthonormal (R3 x)"
  by (simp add: orthonormal_def unit_orthogonal_def R3_def Let_def algebra_simps)

lemma orthonormal_ident3: "orthonormal ident3"
  by (simp add: orthonormal_def unit_orthogonal_def ident3_def)

lemma orthonormal_matmul:
  assumes "orthonormal X" and "orthonormal Y"
  shows "orthonormal (matmul X Y)"
proof -
  from assms have X: "matmul X (transpose3 X) = ident3" "matmul (transpose3 X) X = ident3" "det3 X = 1"
    and Y: "matmul Y (transpose3 Y) = ident3" "matmul (transpose3 Y) Y = ident3" "det3 Y = 1"
    by (simp_all add: orthonormal_iff)
  have "matmul (matmul X Y) (transpose3 (matmul X Y))
          = matmul X (matmul (matmul Y (transpose3 Y)) (transpose3 X))"
    by (simp add: transpose3_matmul matmul_assoc)
  also have "\<dots> = ident3"
    by (simp add: Y matmul_ident3_left X)
  finally have 1: "matmul (matmul X Y) (transpose3 (matmul X Y)) = ident3" .
  have "matmul (transpose3 (matmul X Y)) (matmul X Y)
          = matmul (transpose3 Y) (matmul (matmul (transpose3 X) X) Y)"
    by (simp add: transpose3_matmul matmul_assoc)
  also have "\<dots> = ident3"
    by (simp add: X matmul_ident3_left Y)
  finally have 2: "matmul (transpose3 (matmul X Y)) (matmul X Y) = ident3" .
  have 3: "det3 (matmul X Y) = 1"
    by (simp add: det3_matmul X Y)
  from 1 2 3 show ?thesis
    by (simp add: orthonormal_iff)
qed

lemma orthonormal_W_polar: "orthonormal (W_polar xp yp)"
  unfolding W_polar_def by (rule orthonormal_matmul [OF orthonormal_R2 orthonormal_R1])

lemma C2T_of_eq:
  "C2T_of lib jd_tt leap_seconds DUT1 xp_as yp_as =
     matmul (matmul (W_polar (xp_as * DAS2R lib) (yp_as * DAS2R lib))
                    (R3 (era_from_ut1 (jd_ut1_of jd_tt leap_seconds DUT1))))
            (C_from_XYs lib jd_tt)"
  by (simp add: C2T_of_def Let_def)

lemma orthonormal_C2T_of:
  assumes "orthonormal (C_from_XYs lib jd_tt)"
  shows "orthonormal (C2T_of lib jd_tt leap_seconds DUT1 xp_as yp_as)"
  unfolding C2T_of_eq
  by (intro orthonormal_matmul orthonormal_W_polar orthonormal_R3 assms)

lemma py_fmod_one: "py_fmod x 1 = frac x"
  by (simp add: py_fmod_def frac_def)

lemma py_fmod_one_range: "0 \<le> py_fmod x 1 \<and> py_fmod x 1 < 1"
  by (simp add: py_fmod_one frac_lt_1)

lemma atan2_nonneg_range:
  assumes "0 \<le> x"
  shows "- (pi / 2) \<le> atan2 y x \<and> atan2 y x \<le> pi / 2"
proof (cases "0 < x")
  case True
  then show ?thesis
    using arctan_lbound [of "y / x"] arctan_ubound [of "y / x"]
    by (simp add: atan2_def)
next
  case False
  with assms have "x = 0" by simp
  then show ?thesis
    using pi_gt_zero by (simp add: atan2_def)
qed

lemma hypot_nonneg: "0 \<le> hypot x y"
  by (simp add: hypot_def)

lemma degrees_mono_range:
  assumes "- (pi / 2) \<le> r" and "r \<le> pi / 2"
  shows "- 90 \<le> degrees r \<and> degrees r \<le> 90"
proof -
  have p: "0 \<le> 180 / pi" using pi_gt_zero by simp
  have "r * (180 / pi) \<le> (pi / 2) * (180 / pi)"
    using assms(2) p by (rule mult_right_mono)
  moreover have "(- (pi / 2)) * (180 / pi) \<le> r * (180 / pi)"
    using assms(1) p by (rule mult_right_mono)
  moreover have "(pi / 2) * (180 / pi) = 90" "(- (pi / 2)) * (180 / pi) = - 90"
    by simp_all
  ultimately show ?thesis
    by (simp only: degrees_def)
qed

lemma C_from_XYs_stub: "C_from_XYs erfa_stub jd = ident3"
  by (simp add: C_from_XYs_def erfa_stub_def)

lemma R3_zero: "R3 0 = ident3"
  by (simp add: R3_def ident3_def)

lemma W_polar_zero: "W_polar 0 0 = ident3"
  by (simp add: W_polar_def R1_def R2_def ident3_def)

lemma era_zero_example:
  "era_from_ut1 (jd_ut1_of (2451545 + 69.184 / 86400 - 0.7790572732640 / 1.00273781191135448) 37 0) = 0"
  by (simp add: era_from_ut1_def jd_ut1_of_def tt_utc_leap_seconds_def day_sec_def Let_def
        py_fmod_def)

section \<open>The WGS-84 pole\<close>

lemma one_minus_E2: "1 - E2 = (1 - F)\<^sup>2"
  by (simp add: E2_def power2_eq_square algebra_simps)

lemma F_bounds: "0 < F \<and> F < 1"
  by (simp add: F_def)

lemma sqrt_one_minus_E2: "sqrt (1 - E2) = 1 - F"
  using F_bounds by (simp add: one_minus_E2)

lemma radians_90: "radians 90 = pi / 2"
  by (simp add: radians_def)

lemma geodetic_pole_aux: "geodetic_to_ecef 90 lon 0 = (0, 0, A * (1 - F))"
proof -
  have nz: "1 - F \<noteq> 0" using F_bounds by simp
  have z: "A / (1 - F) * (1 - E2) = A * (1 - F)"
    using nz by (simp add: one_minus_E2 power2_eq_square)
  have "geodetic_to_ecef 90 lon 0 = (0, 0, A / sqrt (1 - E2) * (1 - E2))"
    by (simp add: geodetic_to_ecef_def radians_90 Let_def)
  also have "\<dots> = (0, 0, A * (1 - F))"
    by (simp only: sqrt_one_minus_E2 z)
  finally show ?thesis .
qed

lemma pole_value: "\<bar>A * (1 - F) - 6356752.314\<bar> < 1 / 1000"
  by (simp add: A_def F_def)

lemma pole_not_spec: "A * (1 - F) \<noteq> A * (1 - E2)"
  by (simp add: A_def E2_def F_def)

lemma spec_value_off: "A * (1 - E2) < 6335440"
  by (simp add: A_def E2_def F_def)

section \<open>The claims\<close>

text \<open>
  Claim C1. For every inertial vector and every time and orientation input, the result of
  \<^verbatim>\<open>eci_to_ecef_gcrs\<close> is \<open>M \<cdot> r\<close> with \<open>M = W \<cdot> R \<cdot> C\<close> in this order: polar motion
  times Earth rotation times precession-nutation. The product is the one the source
  writes, \<open>(W \<cdot> R) \<cdot> C\<close>; over the reals it equals \<open>W \<cdot> (R \<cdot> C)\<close>, and applying it is
  applying \<open>C\<close> first, then \<open>R\<close>, then \<open>W\<close>.
\<close>

theorem eci_to_ecef_gcrs_is_W_R_C:
  "(let W = W_polar (xp_as * DAS2R lib) (yp_as * DAS2R lib);
        R = R3 (era_from_ut1 (jd_ut1_of jd_tt leap_seconds DUT1));
        C = C_from_XYs lib jd_tt;
        out = eci_to_ecef_gcrs lib r jd_tt leap_seconds DUT1 xp_as yp_as
    in out = matvec (matmul (matmul W R) C) r
     \<and> out = matvec (matmul W (matmul R C)) r
     \<and> out = matvec W (matvec R (matvec C r)))"
  by (simp add: Let_def eci_to_ecef_gcrs_def C2T_of_eq matmul_assoc matvec_matmul)

text \<open>
  Claim C3. \<open>R1\<close>, \<open>R2\<close>, \<open>R3\<close> at any angle and \<open>W_polar\<close> at any pair of angles are
  orthonormal (unit, mutually orthogonal rows and columns, determinant \<open>+1\<close>); a product of
  orthonormal matrices is orthonormal; and so is the composed matrix \<open>W \<cdot> R \<cdot> C\<close> when the
  library's matrix \<open>C\<close> is.
\<close>

theorem rotations_orthonormal:
  "orthonormal (R1 t) \<and> orthonormal (R2 t) \<and> orthonormal (R3 t)
   \<and> orthonormal (W_polar xp yp)
   \<and> (orthonormal X \<and> orthonormal Y \<longrightarrow> orthonormal (matmul X Y))
   \<and> (orthonormal (C_from_XYs lib jd_tt)
        \<longrightarrow> orthonormal (C2T_of lib jd_tt leap_seconds DUT1 xp_as yp_as))"
  by (simp add: orthonormal_R1 orthonormal_R2 orthonormal_R3 orthonormal_W_polar
        orthonormal_matmul orthonormal_C2T_of)

text \<open>
  Witness for C3: the product of two rotations, and the composed matrix over the library
  stand-in.
\<close>

theorem rotations_orthonormal_witness:
  "orthonormal (R1 0) \<and> orthonormal (R2 0)
   \<and> orthonormal (C_from_XYs erfa_stub 2451545)
   \<and> orthonormal (matmul (R1 0) (R2 0))
   \<and> orthonormal (C2T_of erfa_stub 2451545 37 0 0 0)"
  using rotations_orthonormal [of 0 0 0 "R1 0" "R2 0" erfa_stub 2451545 37 0 0 0]
  by (simp add: C_from_XYs_stub orthonormal_ident3)

text \<open>
  Claim C4, amended. At latitude 90 degrees and height 0, for every longitude, the
  conversion returns \<open>(0, 0, a \<cdot> sqrt (1 - e\<^sup>2))\<close>, which is \<open>(0, 0, a \<cdot> (1 - f))\<close>, the
  semi-minor axis, within a millimetre of 6356752.314.
\<close>

theorem geodetic_pole:
  "geodetic_to_ecef 90 lon 0 = (0, 0, A * sqrt (1 - E2))
   \<and> A * sqrt (1 - E2) = A * (1 - F)
   \<and> \<bar>A * sqrt (1 - E2) - 6356752.314\<bar> < 1 / 1000"
  using pole_value by (simp add: geodetic_pole_aux sqrt_one_minus_E2)

text \<open>
  Claim C4 as stated fails: the third component at the pole is not \<open>a \<cdot> (1 - e\<^sup>2)\<close>
  (which is below 6335440).
\<close>

theorem geodetic_pole_counterexample: "geodetic_to_ecef 90 0 0 \<noteq> (0, 0, A * (1 - E2))"
  using pole_not_spec by (simp add: geodetic_pole_aux)

text \<open>
  Claim C5. When the Earth Rotation Angle is 0, the precession-nutation matrix is the
  identity and both polar angles are 0, the Earth-fixed result is the inertial input.
\<close>

theorem identity_case:
  assumes "era_from_ut1 (jd_ut1_of jd_tt leap_seconds DUT1) = 0"
    and "C_from_XYs lib jd_tt = ident3"
    and "xp_as * DAS2R lib = 0" and "yp_as * DAS2R lib = 0"
  shows "eci_to_ecef_gcrs lib r jd_tt leap_seconds DUT1 xp_as yp_as = r"
proof -
  have "C2T_of lib jd_tt leap_seconds DUT1 xp_as yp_as = ident3"
    unfolding C2T_of_eq assms R3_zero W_polar_zero
    by (simp add: matmul_ident3_left)
  then show ?thesis
    by (simp add: eci_to_ecef_gcrs_def matvec_ident3)
qed

text \<open>
  Witness for C5: a TT date whose UT1 date (37 leap seconds, no DUT1) puts the
  fractional turn at exactly 0.
\<close>

theorem identity_case_witness:
  "era_from_ut1 (jd_ut1_of (2451545 + 69.184 / 86400 - 0.7790572732640 / 1.00273781191135448) 37 0) = 0
   \<and> C_from_XYs erfa_stub (2451545 + 69.184 / 86400 - 0.7790572732640 / 1.00273781191135448) = ident3
   \<and> 0 * DAS2R erfa_stub = 0
   \<and> eci_to_ecef_gcrs erfa_stub (4435144, -2137297, 4670064)
        (2451545 + 69.184 / 86400 - 0.7790572732640 / 1.00273781191135448) 37 0 0 0
      = (4435144, -2137297, 4670064)"
  using identity_case [of "2451545 + 69.184 / 86400 - 0.7790572732640 / 1.00273781191135448" 37 0
      erfa_stub 0 0 "(4435144, -2137297, 4670064)"]
    era_zero_example
  by (simp add: C_from_XYs_stub)

text \<open>
  Claim C6. For every UT1 Julian date, before or after J2000, the fractional turn is in
  \<open>[0, 1)\<close> and the Earth Rotation Angle, \<open>2 \<cdot> pi\<close> times it, is in \<open>[0, 2 \<cdot> pi)\<close>.
\<close>

theorem era_in_range:
  "(let f = py_fmod (0.7790572732640 + 1.00273781191135448 * (jd_ut1 - 2451545.0)) 1.0
    in 0 \<le> f \<and> f < 1 \<and> era_from_ut1 jd_ut1 = 2 * pi * f
       \<and> 0 \<le> era_from_ut1 jd_ut1 \<and> era_from_ut1 jd_ut1 < 2 * pi)"
proof -
  define f where "f = py_fmod (0.7790572732640 + 1.00273781191135448 * (jd_ut1 - 2451545.0)) 1.0"
  have f: "0 \<le> f" "f < 1"
    using py_fmod_one_range [of "0.7790572732640 + 1.00273781191135448 * (jd_ut1 - 2451545.0)"]
    by (simp_all add: f_def)
  have e: "era_from_ut1 jd_ut1 = 2 * pi * f"
    by (simp add: era_from_ut1_def f_def Let_def)
  have "0 \<le> 2 * pi * f" using f(1) pi_gt_zero by simp
  moreover have "2 * pi * f < 2 * pi * 1"
    using f(2) pi_gt_zero by (intro mult_strict_left_mono) simp_all
  ultimately show ?thesis
    using f e unfolding Let_def f_def [symmetric] by simp
qed

text \<open>
  Claim C7. The UT1 date is the TT date minus \<open>(32.184 + leapSeconds) / 86400\<close> (the
  UTC date) plus \<open>DUT1 / 86400\<close>, and this is the date whose Earth Rotation Angle
  \<^verbatim>\<open>eci_to_ecef_gcrs\<close> uses.
\<close>

theorem jd_ut1_formula:
  "(let jd_utc = jd_tt - (32.184 + real_of_int leap_seconds) / 86400;
        jd_ut1 = jd_utc + DUT1 / 86400
    in jd_ut1_of jd_tt leap_seconds DUT1 = jd_ut1
     \<and> jd_ut1 = jd_tt - (32.184 + real_of_int leap_seconds) / 86400 + DUT1 / 86400
     \<and> eci_to_ecef_gcrs lib r jd_tt leap_seconds DUT1 xp_as yp_as =
         matvec (matmul (matmul (W_polar (xp_as * DAS2R lib) (yp_as * DAS2R lib))
                                (R3 (era_from_ut1 jd_ut1)))
                        (C_from_XYs lib jd_tt)) r)"
proof -
  have "jd_ut1_of jd_tt leap_seconds DUT1 =
          jd_tt - (32.184 + real_of_int leap_seconds) / 86400 + DUT1 / 86400"
    by (simp add: jd_ut1_of_def tt_utc_leap_seconds_def day_sec_def Let_def)
  then show ?thesis
    by (simp add: Let_def eci_to_ecef_gcrs_def C2T_of_eq)
qed

text \<open>
  Claim C8. When satellite and observer coincide the relative vector is zero, its East,
  North and Up components are all 0, and the elevation is defined and equal to 0 degrees,
  since \<open>atan2 0 0 = 0\<close>.
\<close>

theorem coincident_elevation_zero:
  "enu_components (vsub p p) lat_deg lon_deg = (0, 0, 0)
   \<and> enu_components (0, 0, 0) lat_deg lon_deg = (0, 0, 0)
   \<and> hypot 0 0 = 0 \<and> atan2 0 0 = 0
   \<and> elevation_from_enu 0 0 0 = 0"
  by (cases p)
     (simp add: enu_components_def elevation_from_enu_def hypot_def atan2_def degrees_def Let_def)

text \<open>
  Claim C9. In both drivers the flag is \<open>elevation \<ge> threshold\<close>; the boundary is
  inclusive: with the threshold set to the computed elevation itself, the satellite is
  visible.
\<close>

theorem visibility_inclusive:
  "(case compute lib r_gcrs jdn_tt lat lon h min_elev leap_seconds dut1 xp_as yp_as of
      (r_itrs, elev, visible) \<Rightarrow>
        visible = (elev \<ge> min_elev)
        \<and> snd (snd (compute lib r_gcrs jdn_tt lat lon h elev leap_seconds dut1 xp_as yp_as)))
   \<and> (case main lib of (elevation, visible) \<Rightarrow> visible = (elevation \<ge> 15))"
  by (simp add: compute_def main_def Let_def split: prod.splits)

text \<open>
  Claim C10. The elevation of any East, North, Up triple lies in \<open>[-90, 90]\<close> degrees.
\<close>

theorem elevation_range:
  "- 90 \<le> elevation_from_enu E N U \<and> elevation_from_enu E N U \<le> 90"
  unfolding elevation_from_enu_def
  using atan2_nonneg_range [OF hypot_nonneg, of U E N]
  by (intro degrees_mono_range) simp_all

end
